theory Spec2Isabelle
  imports Main "HOL-Library.AList"
begin

section \<open>The federation executor (federation/executor.go)\<close>

text \<open>
  A shallow embedding of \<^verbatim>\<open>federation/executor.go\<close>: the path follower
  (\<^verbatim>\<open>extractTargets\<close>), the plan walk (\<^verbatim>\<open>execute\<close>, \<^verbatim>\<open>Execute\<close>) and the
  construction of the gateway (\<^verbatim>\<open>fetchSchema\<close>, \<^verbatim>\<open>NewExecutor\<close>).
\<close>

subsection \<open>Result trees\<close>

text \<open>
  A decoded response is an \<^verbatim>\<open>interface{}\<close> holding what \<^verbatim>\<open>encoding/json\<close> produces:
  nil, a bool, a number, a string, a \<^verbatim>\<open>[]interface{}\<close> or a
  \<^verbatim>\<open>map[string]interface{}\<close>. An object is an association list read with
  \<^const>\<open>map_of\<close> and written with \<^const>\<open>AList.update\<close>; the executor never looks
  inside a number, so its payload is an integer here.
\<close>

datatype json =
    JNull
  | JBool bool
  | JNum int
  | JStr string
  | JList "json list"
  | JObj "(string \<times> json) list"

type_synonym object = "(string \<times> json) list"

type_synonym bytes = string

subsection \<open>Paths and plans\<close>

text \<open>
  Modelled from the spec: the declarations of \<^verbatim>\<open>StepKind\<close>, \<^verbatim>\<open>PathStep\<close> and
  \<^verbatim>\<open>Plan\<close> are not in the file. A step is "descend into field F" or "restrict to
  objects whose reported concrete type equals T"; the file reads \<^verbatim>\<open>step.Kind\<close>
  (against \<^verbatim>\<open>KindField\<close> and \<^verbatim>\<open>KindType\<close>) and \<^verbatim>\<open>step.Name\<close>. The \<^verbatim>\<open>switch\<close>
  of \<^verbatim>\<open>extractTargets\<close> has no default branch, so a step of any other kind falls
  through it: \<open>KindOther\<close> stands for such a value. A plan has a target service, the
  path from its parent's result to its merge targets, and its children \<^verbatim>\<open>After\<close>;
  the file reads \<^verbatim>\<open>p.Service\<close> and \<^verbatim>\<open>p.After\<close> only, and the sub-query body, which
  it never reads, is left out.
\<close>

datatype StepKind = KindType | KindField | KindOther

record PathStep =
  Kind :: StepKind
  Name :: string

datatype Plan = Plan (Service: string) (Path: "PathStep list") (After: "Plan list")

subsection \<open>Errors and panics\<close>

text \<open>
  Every \<^verbatim>\<open>fmt.Errorf\<close> of the file is a constructor that keeps the arguments of its
  format string; \<open>Opaque\<close> is an error made by a collaborator outside the file (a
  client, the JSON decoder, the schema merger, the flattener, the planner).
\<close>

datatype error =
    NotAnObject
  | MissingFederation object
  | DoesNotHaveKey string
  | DoesNotHaveTypename
  | Idx nat error
  | Elem json error
  | Typ string error
  | ExecutingSubPlan error
  | GotResults nat nat
  | ResultNotAnObject
  | FetchingSchema string error
  | UnmarshalingSchema string error
  | ConvertingSchema error
  | UnmarshalingIntrospectionSchema error
  | Opaque string

text \<open>
  A call either panics (an index out of range, a failed type assertion), returns a
  non-nil error, or returns its value with a nil error.
\<close>

datatype 'a outcome = Panic | Failed error | Returned 'a

subsection \<open>The path follower\<close>

record pathFollower =
  targets :: "object list"
  keys :: "json list"

text \<open>\<^verbatim>\<open>obj["__typename"].(string)\<close>: the field, when it is there and holds a string.\<close>

definition typename :: "object \<Rightarrow> string option" where
  "typename obj = (case map_of obj ''__typename'' of Some (JStr s) \<Rightarrow> Some s | _ \<Rightarrow> None)"

text \<open>
  \<^verbatim>\<open>extractTargets\<close> appends to the follower it is called on, also when it returns
  an error: the model returns the follower as the call leaves it, beside the error
  (\<open>None\<close> is Go's nil). \<open>extractSlice i\<close> is the \<^verbatim>\<open>range\<close> loop over a list from
  index \<open>i\<close> on.
\<close>

function (sequential) extractTargets ::
    "json \<Rightarrow> PathStep list \<Rightarrow> pathFollower \<Rightarrow> pathFollower \<times> error option"
  and extractSlice ::
    "nat \<Rightarrow> json list \<Rightarrow> PathStep list \<Rightarrow> pathFollower \<Rightarrow> pathFollower \<times> error option"
where
  "extractTargets (JList slice) path pf = extractSlice 0 slice path pf"
| "extractTargets (JObj obj) [] pf =
    (case map_of obj ''__federation'' of
       None \<Rightarrow> (pf, Some (MissingFederation obj))
     | Some key \<Rightarrow> (pf\<lparr>targets := targets pf @ [obj], keys := keys pf @ [key]\<rparr>, None))"
| "extractTargets node [] pf = (pf, Some NotAnObject)"
| "extractTargets (JObj obj) (step # rest) pf =
    (case Kind step of
       KindField \<Rightarrow>
         (case map_of obj (Name step) of
            None \<Rightarrow> (pf, Some (DoesNotHaveKey (Name step)))
          | Some next \<Rightarrow>
              (case extractTargets next rest pf of
                 (pf', Some err) \<Rightarrow> (pf', Some (Elem next err))
               | (pf', None) \<Rightarrow> (pf', None)))
     | KindType \<Rightarrow>
         (case typename obj of
            None \<Rightarrow> (pf, Some DoesNotHaveTypename)
          | Some typ \<Rightarrow>
              if typ = Name step then
                (case extractTargets (JObj obj) rest pf of
                   (pf', Some err) \<Rightarrow> (pf', Some (Typ typ err))
                 | (pf', None) \<Rightarrow> (pf', None))
              else (pf, None))
     | KindOther \<Rightarrow> (pf, None))"
| "extractTargets node (step # rest) pf = (pf, None)"
| "extractSlice i [] path pf = (pf, None)"
| "extractSlice i (elem # rest) path pf =
    (case extractTargets elem path pf of
       (pf', Some err) \<Rightarrow> (pf', Some (Idx i err))
     | (pf', None) \<Rightarrow> extractSlice (Suc i) rest path pf')"
  by pat_completeness auto
termination
  apply (relation "measures [
     (\<lambda>x. case x of Inl (node, path, pf) \<Rightarrow> length path
                   | Inr (i, slice, path, pf) \<Rightarrow> length path),
     (\<lambda>x. case x of Inl (node, path, pf) \<Rightarrow> 2 * size node
                   | Inr (i, slice, path, pf) \<Rightarrow> 2 * size_list size slice + 1)]")
  apply auto
  done

subsection \<open>Walking a plan\<close>

text \<open>
  An \<^verbatim>\<open>ExecutorClient\<close> is the one method \<^verbatim>\<open>Execute(ctx, req)\<close>: a function from
  a query to bytes or an error, or the \<^verbatim>\<open>DirectExecutorClient\<close> that wraps a
  \<^verbatim>\<open>Server\<close>. The map \<^verbatim>\<open>Executors\<close> is an association list; its order is the order
  in which \<^verbatim>\<open>range\<close> happens to visit the map.
\<close>

datatype 'sch Server = Server (Server_schema: 'sch)

datatype ('q, 'sch) ExecutorClient =
    Client "'q \<Rightarrow> error + bytes"
  | DirectExecutorClient "'sch Server"

record ('ty, 'fl) Planner =
  schema :: 'ty
  flattener :: 'fl

record ('q, 'sch, 'ty, 'fl) Executor =
  Executors :: "(string \<times> ('q, 'sch) ExecutorClient) list"
  planner :: "('ty, 'fl) Planner"

text \<open>\<^verbatim>\<open>for k, v := range result { target[k] = v }\<close>\<close>

definition mergeObject :: "object \<Rightarrow> object \<Rightarrow> object" where
  "mergeObject target result = foldl (\<lambda>t (k, v). AList.update k v t) target result"

text \<open>
  The loop \<^verbatim>\<open>for i, target := range pf.targets\<close> of a child's task: \<^verbatim>\<open>results[i]\<close>
  must be an object, and is merged into the target.
\<close>

fun mergeResults :: "object list \<Rightarrow> json list \<Rightarrow> object list outcome" where
  "mergeResults [] results = Returned []"
| "mergeResults (target # ts) [] = Panic"
| "mergeResults (target # ts) (JObj result # rs) =
     (case mergeResults ts rs of
        Returned ts' \<Rightarrow> Returned (mergeObject target result # ts')
      | Failed err \<Rightarrow> Failed err
      | Panic \<Rightarrow> Panic)"
| "mergeResults (target # ts) (r # rs) = Failed ResultNotAnObject"

text \<open>
  What \<^verbatim>\<open>execute\<close> prepares for each child:
  \<^verbatim>\<open>pf.keys = nil; pf.targets = []map[string]interface{}{res[0].(map[string]interface{})}\<close>.
  Indexing an empty \<^verbatim>\<open>res\<close> panics, and so does the type assertion on anything
  but an object.
\<close>

definition subPlanFollower :: "json list \<Rightarrow> pathFollower outcome" where
  "subPlanFollower res =
     (case res of
        [] \<Rightarrow> Panic
      | JObj root # _ \<Rightarrow> Returned \<lparr>targets = [root], keys = []\<rparr>
      | _ # _ \<Rightarrow> Panic)"

text \<open>
  The body of the function given to \<^verbatim>\<open>g.Go\<close>, applied to what the recursive
  \<^verbatim>\<open>e.execute(ctx, subPlan, pf.keys)\<close> returned. The targets are maps, so the merge
  is seen through \<^verbatim>\<open>res[0]\<close>: the task returns the follower with its targets
  updated.
\<close>

definition subPlanTask :: "pathFollower \<Rightarrow> json list outcome \<Rightarrow> pathFollower outcome" where
  "subPlanTask pf r =
     (case r of
        Panic \<Rightarrow> Panic
      | Failed err \<Rightarrow> Failed (ExecutingSubPlan err)
      | Returned results \<Rightarrow>
          if length results \<noteq> length (targets pf)
          then Failed (GotResults (length results) (length (targets pf)))
          else (case mergeResults (targets pf) results of
                  Panic \<Rightarrow> Panic
                | Failed err \<Rightarrow> Failed err
                | Returned ts \<Rightarrow> Returned (pf\<lparr>targets := ts\<rparr>)))"

text \<open>
  \<^verbatim>\<open>g.Wait()\<close> over the children's tasks. Every child's follower holds the same
  map, \<^verbatim>\<open>res[0]\<close>, so one follower is threaded through the tasks. The tasks run
  concurrently and merge under \<^verbatim>\<open>resMu\<close>; the model runs them in the order of
  \<^verbatim>\<open>p.After\<close>, one of the schedules. A panic in any task ends the process whatever
  the others return; otherwise the group reports an error of a failed task (here the
  first in the order of \<^verbatim>\<open>p.After\<close>), and the merges of the others are dropped with
  \<^verbatim>\<open>res\<close>. The context \<^verbatim>\<open>ctx\<close> is passed on and never read.
\<close>

fun groupWait :: "pathFollower \<Rightarrow> json list outcome list \<Rightarrow> pathFollower outcome" where
  "groupWait pf [] = Returned pf"
| "groupWait pf (r # rs) =
     (case subPlanTask pf r of
        Panic \<Rightarrow> Panic
      | Failed err \<Rightarrow> (case groupWait pf rs of Panic \<Rightarrow> Panic | _ \<Rightarrow> Failed err)
      | Returned pf' \<Rightarrow> groupWait pf' rs)"

text \<open>
  \<^verbatim>\<open>execute\<close>. The constant \<^verbatim>\<open>gatewayCoordinatorServiceName\<close> is declared outside
  the file and is the parameter \<open>coordinator\<close>. Neither the executor \<open>e\<close> nor the
  keys \<open>ks\<close> are read by the body: no client is called. With no child the loop
  does not run and \<^verbatim>\<open>res\<close> is returned as it is; with children, each iteration
  first builds the child's follower from \<^verbatim>\<open>res[0]\<close>.
\<close>

fun execute ::
  "string \<Rightarrow> ('q, 'sch, 'ty, 'fl) Executor \<Rightarrow> Plan \<Rightarrow> json list \<Rightarrow> json list outcome" where
  "execute coordinator e (Plan service path after) ks =
     (let res = (if service = coordinator then [JObj []] else []) in
      if after = [] then Returned res
      else
        (case subPlanFollower res of
           Panic \<Rightarrow> Panic
         | Failed err \<Rightarrow> Failed err
         | Returned pf \<Rightarrow>
             (case groupWait pf (map (\<lambda>subPlan. execute coordinator e subPlan (keys pf)) after) of
                Panic \<Rightarrow> Panic
              | Failed err \<Rightarrow> Failed err
              | Returned pf' \<Rightarrow>
                  Returned (case targets pf' of [] \<Rightarrow> res | t # _ \<Rightarrow> res[0 := JObj t]))))"

text \<open>
  \<^verbatim>\<open>Execute\<close>: plan, walk, and return \<^verbatim>\<open>r[0]\<close>, which panics on an empty \<^verbatim>\<open>r\<close>.
  \<^verbatim>\<open>planRoot\<close> is a method of the planner, outside the file: a parameter.
  \<^verbatim>\<open>printPlan\<close> only prints the plan and is left out.
\<close>

definition Execute ::
  "(('ty, 'fl) Planner \<Rightarrow> 'q \<Rightarrow> error + Plan) \<Rightarrow> string \<Rightarrow>
     ('q, 'sch, 'ty, 'fl) Executor \<Rightarrow> 'q \<Rightarrow> json outcome" where
  "Execute planRoot coordinator e q =
     (case planRoot (planner e) q of
        Inl err \<Rightarrow> Failed err
      | Inr p \<Rightarrow>
          (case execute coordinator e p [] of
             Panic \<Rightarrow> Panic
           | Failed err \<Rightarrow> Failed err
           | Returned r \<Rightarrow> (case r of [] \<Rightarrow> Panic | res # _ \<Rightarrow> Returned res)))"

subsection \<open>Building the gateway\<close>

text \<open>
  What \<^verbatim>\<open>NewExecutor\<close> calls outside the file, as a record of functions:
  \<^verbatim>\<open>graphql.Parse\<close> of the introspection query, \<^verbatim>\<open>DirectExecutorClient.Execute\<close>,
  \<^verbatim>\<open>json.Unmarshal\<close> into an \<^verbatim>\<open>introspectionQueryResult\<close>, \<^verbatim>\<open>convertSchema\<close>, the
  field \<^verbatim>\<open>Schema\<close> of its result, \<^verbatim>\<open>introspection.BareIntrospectionSchema\<close>,
  \<^verbatim>\<open>introspection.RunIntrospectionQuery\<close> (bytes and an error, both returned) and
  \<^verbatim>\<open>newFlattener\<close>.
\<close>

record ('q, 'iq, 'ty, 'sch, 'fl) collaborators =
  parseIntrospectionQuery :: "error + 'q"
  directExecute :: "'sch Server \<Rightarrow> 'q \<Rightarrow> error + bytes"
  unmarshal :: "bytes \<Rightarrow> error + 'iq"
  convertSchema :: "(string \<rightharpoonup> 'iq) \<Rightarrow> error + 'ty"
  Schema :: "'ty \<Rightarrow> 'sch"
  BareIntrospectionSchema :: "'sch \<Rightarrow> 'sch"
  RunIntrospectionQuery :: "'sch \<Rightarrow> bytes \<times> error option"
  newFlattener :: "'sch \<Rightarrow> error + 'fl"

definition clientExecute ::
  "('q, 'iq, 'ty, 'sch, 'fl) collaborators \<Rightarrow> ('q, 'sch) ExecutorClient \<Rightarrow> 'q \<Rightarrow> error + bytes" where
  "clientExecute c client req =
     (case client of Client f \<Rightarrow> f req | DirectExecutorClient srv \<Rightarrow> directExecute c srv req)"

definition fetchSchema ::
  "('q, 'iq, 'ty, 'sch, 'fl) collaborators \<Rightarrow> ('q, 'sch) ExecutorClient \<Rightarrow> error + bytes" where
  "fetchSchema c e =
     (case parseIntrospectionQuery c of
        Inl err \<Rightarrow> Inl err
      | Inr query \<Rightarrow> clientExecute c e query)"

text \<open>The loop \<^verbatim>\<open>for server, client := range executors\<close>, filling \<^verbatim>\<open>schemas\<close>.\<close>

fun fetchSchemas ::
  "('q, 'iq, 'ty, 'sch, 'fl) collaborators \<Rightarrow> (string \<times> ('q, 'sch) ExecutorClient) list \<Rightarrow>
     (string \<rightharpoonup> 'iq) \<Rightarrow> error + (string \<rightharpoonup> 'iq)" where
  "fetchSchemas c [] schemas = Inr schemas"
| "fetchSchemas c ((server, client) # rest) schemas =
     (case fetchSchema c client of
        Inl err \<Rightarrow> Inl (FetchingSchema server err)
      | Inr fetched \<Rightarrow>
          (case unmarshal c fetched of
             Inl err \<Rightarrow> Inl (UnmarshalingSchema server err)
           | Inr iq \<Rightarrow> fetchSchemas c rest (schemas(server \<mapsto> iq))))"

text \<open>
  \<^verbatim>\<open>NewExecutor\<close> returns the caller's map as the call leaves it, beside the
  result: \<open>Inl\<close> is \<^verbatim>\<open>(nil, err)\<close>, \<open>Inr\<close> the executor with a nil error. The error
  of \<^verbatim>\<open>RunIntrospectionQuery\<close> is assigned and never read.
\<close>

definition NewExecutor ::
  "('q, 'iq, 'ty, 'sch, 'fl) collaborators \<Rightarrow> (string \<times> ('q, 'sch) ExecutorClient) list \<Rightarrow>
     (string \<times> ('q, 'sch) ExecutorClient) list \<times> (error + ('q, 'sch, 'ty, 'fl) Executor)" where
  "NewExecutor c executors =
     (case fetchSchemas c executors Map.empty of
        Inl err \<Rightarrow> (executors, Inl err)
      | Inr schemas \<Rightarrow>
          (case convertSchema c schemas of
             Inl err \<Rightarrow> (executors, Inl (ConvertingSchema err))
           | Inr types \<Rightarrow>
               (let introspectionSchema = BareIntrospectionSchema c (Schema c types);
                    introspectionServer = Server introspectionSchema;
                    executors' = AList.update ''introspection''
                                   (DirectExecutorClient introspectionServer) executors;
                    run = RunIntrospectionQuery c
                            (BareIntrospectionSchema c (Server_schema introspectionServer))
                in case unmarshal c (fst run) of
                     Inl err \<Rightarrow> (executors', Inl (UnmarshalingIntrospectionSchema err))
                   | Inr iq \<Rightarrow>
                       (case convertSchema c (schemas(''introspection'' \<mapsto> iq)) of
                          Inl err \<Rightarrow> (executors', Inl err)
                        | Inr types' \<Rightarrow>
                            (case newFlattener c (Schema c types') of
                               Inl err \<Rightarrow> (executors', Inl err)
                             | Inr fl \<Rightarrow>
                                 (executors',
                                  Inr \<lparr>Executors = executors',
                                       planner = \<lparr>schema = types', flattener = fl\<rparr>\<rparr>))))))"

subsection \<open>Followers as values\<close>

text \<open>
  The follower a fresh \<^verbatim>\<open>var pf pathFollower\<close> is, and the follower \<open>pf\<close> after the
  targets and keys of \<open>r\<close> were appended to it.
\<close>

definition noTargets :: pathFollower where
  "noTargets = \<lparr>targets = [], keys = []\<rparr>"

definition appendFollower :: "pathFollower \<Rightarrow> pathFollower \<Rightarrow> pathFollower" where
  "appendFollower pf r = pf\<lparr>targets := targets pf @ targets r, keys := keys pf @ keys r\<rparr>"

subsection \<open>Plans without paths\<close>

text \<open>The plan \<open>p\<close> with the \<^verbatim>\<open>Path\<close> of every node replaced by the empty path.\<close>

fun withoutPaths :: "Plan \<Rightarrow> Plan" where
  "withoutPaths (Plan service path after) = Plan service [] (map withoutPaths after)"

subsection \<open>Errors that name a step\<close>

text \<open>
  The errors \<^verbatim>\<open>NewExecutor\<close> builds itself, each with a format string that starts with
  the step that failed (\<^verbatim>\<open>"fetching schema %s: %v"\<close>, \<^verbatim>\<open>"unmarshaling schema %s: %v"\<close>,
  \<^verbatim>\<open>"converting schema error: %v"\<close>, \<^verbatim>\<open>"unmarshaling introspection schema: %v"\<close>).
\<close>

fun namesFailingStep :: "error \<Rightarrow> bool" where
  "namesFailingStep (FetchingSchema server err) = True"
| "namesFailingStep (UnmarshalingSchema server err) = True"
| "namesFailingStep (ConvertingSchema err) = True"
| "namesFailingStep (UnmarshalingIntrospectionSchema err) = True"
| "namesFailingStep err = False"

subsection \<open>Example collaborators\<close>

text \<open>
  Collaborators that all succeed, for concrete runs of \<^verbatim>\<open>NewExecutor\<close>: decoding fails
  on empty input only, every merge yields the schema \<open>''merged''\<close>, and a client that
  answers the introspection query.
\<close>

definition goodCollaborators :: "(unit, bytes, string, string, unit) collaborators" where
  "goodCollaborators =
     \<lparr>parseIntrospectionQuery = Inr (),
      directExecute = (\<lambda>srv q. Inr (Server_schema srv)),
      unmarshal = (\<lambda>b. if b = [] then Inl (Opaque ''unexpected end of JSON input'') else Inr b),
      convertSchema = (\<lambda>schemas. Inr ''merged''),
      Schema = (\<lambda>types. types),
      BareIntrospectionSchema = (\<lambda>s. ''bare:'' @ s),
      RunIntrospectionQuery = (\<lambda>s. (''introspected:'' @ s, None)),
      newFlattener = (\<lambda>s. Inr ())\<rparr>"

definition usersClient :: "(unit, string) ExecutorClient" where
  "usersClient = Client (\<lambda>q. Inr ''users-schema'')"

section \<open>Path following\<close>

text \<open>
  A walk only appends: started on any follower it returns the same error, and leaves that
  follower extended by what the walk appends to a fresh one.
\<close>

lemma appendFollower_noTargets [simp]: "appendFollower pf noTargets = pf"
  by (simp add: appendFollower_def noTargets_def)

lemma appendFollower_assoc:
  "appendFollower (appendFollower pf a) b = appendFollower pf (appendFollower a b)"
  by (simp add: appendFollower_def)

lemma extract_from_empty:
  fixes d :: pathFollower
  shows "\<forall>pf. extractTargets node path pf =
           (appendFollower pf (fst (extractTargets node path noTargets)),
            snd (extractTargets node path noTargets))"
    and "\<forall>pf. extractSlice i slice path pf =
           (appendFollower pf (fst (extractSlice i slice path noTargets)),
            snd (extractSlice i slice path noTargets))"
proof (induction node path d and i slice path d rule: extractTargets_extractSlice.induct)
  case (1 slice path pf)
  then have ih: "\<And>pf. extractSlice 0 slice path pf =
           (appendFollower pf (fst (extractSlice 0 slice path noTargets)),
            snd (extractSlice 0 slice path noTargets))" by blast
  show ?case
  proof
    fix pf
    show "extractTargets (JList slice) path pf =
           (appendFollower pf (fst (extractTargets (JList slice) path noTargets)),
            snd (extractTargets (JList slice) path noTargets))"
      using ih[of pf] by simp
  qed
next
  case (2 obj pf)
  then show ?case by (simp add: appendFollower_def noTargets_def split: option.splits)
next
  case (4 obj step rest pf)
  show ?case
  proof (cases "Kind step")
    case KindType
    show ?thesis
    proof (cases "typename obj")
      case None
      with KindType show ?thesis by simp
    next
      case (Some tn)
      show ?thesis
      proof (cases "tn = Name step")
        case True
        from "4.IH"(1)[OF KindType Some True] have ih: "\<And>pf. extractTargets (JObj obj) rest pf =
           (appendFollower pf (fst (extractTargets (JObj obj) rest noTargets)),
            snd (extractTargets (JObj obj) rest noTargets))" by blast
        show ?thesis
        proof
          fix pf
          show "extractTargets (JObj obj) (step # rest) pf =
           (appendFollower pf (fst (extractTargets (JObj obj) (step # rest) noTargets)),
            snd (extractTargets (JObj obj) (step # rest) noTargets))"
            using KindType Some True ih[of pf]
            by (cases "extractTargets (JObj obj) rest noTargets") (auto split: option.splits)
        qed
      next
        case False
        with KindType Some show ?thesis by simp
      qed
    qed
  next
    case KindField
    show ?thesis
    proof (cases "map_of obj (Name step)")
      case None
      with KindField show ?thesis by simp
    next
      case (Some nxt)
      from "4.IH"(2)[OF KindField Some] have ih: "\<And>pf. extractTargets nxt rest pf =
           (appendFollower pf (fst (extractTargets nxt rest noTargets)),
            snd (extractTargets nxt rest noTargets))" by blast
      show ?thesis
      proof
        fix pf
        show "extractTargets (JObj obj) (step # rest) pf =
           (appendFollower pf (fst (extractTargets (JObj obj) (step # rest) noTargets)),
            snd (extractTargets (JObj obj) (step # rest) noTargets))"
          using KindField Some ih[of pf]
          by (cases "extractTargets nxt rest noTargets") (auto split: option.splits)
      qed
    qed
  next
    case KindOther
    then show ?thesis by simp
  qed
next
  case (7 i elem rest path pf)
  from "7.IH"(1) have ih1: "\<And>pf. extractTargets elem path pf =
           (appendFollower pf (fst (extractTargets elem path noTargets)),
            snd (extractTargets elem path noTargets))" by blast
  show ?case
  proof (cases "snd (extractTargets elem path noTargets)")
    case (Some err)
    show ?thesis
    proof
      fix pf
      show "extractSlice i (elem # rest) path pf =
         (appendFollower pf (fst (extractSlice i (elem # rest) path noTargets)),
          snd (extractSlice i (elem # rest) path noTargets))"
        using Some ih1[of pf]
        by (cases "extractTargets elem path noTargets") auto
    qed
  next
    case None
    obtain r where r: "extractTargets elem path noTargets = (r, None)"
      using None by (cases "extractTargets elem path noTargets") auto
    have "(fst (extractTargets elem path pf), None) = extractTargets elem path pf"
      using ih1[of pf] None by simp
    from "7.IH"(2)[OF this refl] have ih2: "\<And>pf. extractSlice (Suc i) rest path pf =
         (appendFollower pf (fst (extractSlice (Suc i) rest path noTargets)),
          snd (extractSlice (Suc i) rest path noTargets))" by blast
    show ?thesis
    proof
      fix pf
      have a: "extractSlice i (elem # rest) path pf = extractSlice (Suc i) rest path (appendFollower pf r)"
        using ih1[of pf] r by simp
      have b: "extractSlice i (elem # rest) path noTargets = extractSlice (Suc i) rest path r"
        using r by simp
      show "extractSlice i (elem # rest) path pf =
         (appendFollower pf (fst (extractSlice i (elem # rest) path noTargets)),
          snd (extractSlice i (elem # rest) path noTargets))"
        unfolding a b
        using ih2[of "appendFollower pf r"] ih2[of r]
        by (simp add: appendFollower_assoc)
    qed
  qed
qed simp_all


lemma extractTargets_append:
  "extractTargets node path pf =
     (appendFollower pf (fst (extractTargets node path noTargets)),
      snd (extractTargets node path noTargets))"
  using extract_from_empty(1) by blast

lemma extractSlice_all_ok:
  "\<forall>elem \<in> set slice. snd (extractTargets elem path noTargets) = None \<Longrightarrow>
   extractSlice i slice path pf =
     (pf\<lparr>targets := targets pf @ concat (map (\<lambda>elem. targets (fst (extractTargets elem path noTargets))) slice),
         keys := keys pf @ concat (map (\<lambda>elem. keys (fst (extractTargets elem path noTargets))) slice)\<rparr>,
      None)"
proof (induction slice arbitrary: i pf)
  case Nil
  then show ?case by simp
next
  case (Cons elem rest)
  have ok: "snd (extractTargets elem path noTargets) = None"
    using Cons.prems by simp
  have step: "extractTargets elem path pf =
      (appendFollower pf (fst (extractTargets elem path noTargets)), None)"
    using extractTargets_append[of elem path pf] ok by simp
  have rest: "\<forall>x \<in> set rest. snd (extractTargets x path noTargets) = None"
    using Cons.prems by simp
  show ?case
    by (simp add: step Cons.IH[OF rest] appendFollower_def)
qed

lemma extractSlice_first_error:
  "n < length slice \<Longrightarrow>
   \<forall>j < n. snd (extractTargets (slice ! j) path noTargets) = None \<Longrightarrow>
   snd (extractTargets (slice ! n) path noTargets) = Some err \<Longrightarrow>
   extractSlice i slice path pf =
     (pf\<lparr>targets := targets pf
            @ concat (map (\<lambda>elem. targets (fst (extractTargets elem path noTargets))) (take n slice))
            @ targets (fst (extractTargets (slice ! n) path noTargets)),
         keys := keys pf
            @ concat (map (\<lambda>elem. keys (fst (extractTargets elem path noTargets))) (take n slice))
            @ keys (fst (extractTargets (slice ! n) path noTargets))\<rparr>,
      Some (Idx (i + n) err))"
proof (induction slice arbitrary: i n pf)
  case Nil
  then show ?case by simp
next
  case (Cons elem rest)
  show ?case
  proof (cases n)
    case 0
    have "extractTargets elem path pf =
      (appendFollower pf (fst (extractTargets elem path noTargets)), Some err)"
      using extractTargets_append[of elem path pf] Cons.prems(3) 0 by simp
    then show ?thesis using 0 by (simp add: appendFollower_def)
  next
    case (Suc m)
    have ok: "snd (extractTargets elem path noTargets) = None"
      using Cons.prems(2) Suc by auto
    have step: "extractTargets elem path pf =
      (appendFollower pf (fst (extractTargets elem path noTargets)), None)"
      using extractTargets_append[of elem path pf] ok by simp
    have m: "m < length rest" using Cons.prems(1) Suc by simp
    have before: "\<forall>j < m. snd (extractTargets (rest ! j) path noTargets) = None"
      using Cons.prems(2) Suc by auto
    have at: "snd (extractTargets (rest ! m) path noTargets) = Some err"
      using Cons.prems(3) Suc by simp
    show ?thesis
      by (simp add: step Suc Cons.IH[OF m before at] appendFollower_def)
  qed
qed

lemma extractSlice_objects:
  "\<forall>obj \<in> set objs. map_of obj ''__federation'' \<noteq> None \<Longrightarrow>
   extractSlice i (map JObj objs) [] pf =
     (pf\<lparr>targets := targets pf @ objs,
         keys := keys pf @ map (\<lambda>obj. the (map_of obj ''__federation'')) objs\<rparr>, None)"
proof (induction objs arbitrary: i pf)
  case Nil
  then show ?case by simp
next
  case (Cons obj rest)
  then obtain key where key: "map_of obj ''__federation'' = Some key" by auto
  have rest: "\<forall>x \<in> set rest. map_of x ''__federation'' \<noteq> None" using Cons.prems by simp
  show ?case by (simp add: key Cons.IH[OF rest])
qed

text \<open>
  C5. When the current node is a list, the remaining path is applied to every element on
  its own and in element order. If every element is followed without error, the call
  appends to the follower what each element yields by itself, in list order, and returns
  no error. If element \<open>n\<close> is the first whose walk fails, the call returns that error
  tagged \<open>Idx n\<close> and stops: the follower holds what the elements before \<open>n\<close> and
  the failed walk itself had appended, and nothing of the elements after \<open>n\<close>. In
  particular a list of objects that all carry \<^verbatim>\<open>__federation\<close>, followed with the empty
  path, yields the objects as targets and their markers as keys, in list order.
\<close>

theorem extractTargets_list_fan_out:
  "((\<forall>elem \<in> set slice. snd (extractTargets elem path noTargets) = None) \<longrightarrow>
      extractTargets (JList slice) path pf =
        (pf\<lparr>targets := targets pf
               @ concat (map (\<lambda>elem. targets (fst (extractTargets elem path noTargets))) slice),
            keys := keys pf
               @ concat (map (\<lambda>elem. keys (fst (extractTargets elem path noTargets))) slice)\<rparr>,
         None))
   \<and> (n < length slice
        \<and> (\<forall>j < n. snd (extractTargets (slice ! j) path noTargets) = None)
        \<and> snd (extractTargets (slice ! n) path noTargets) = Some err \<longrightarrow>
      extractTargets (JList slice) path pf =
        (pf\<lparr>targets := targets pf
               @ concat (map (\<lambda>elem. targets (fst (extractTargets elem path noTargets))) (take n slice))
               @ targets (fst (extractTargets (slice ! n) path noTargets)),
            keys := keys pf
               @ concat (map (\<lambda>elem. keys (fst (extractTargets elem path noTargets))) (take n slice))
               @ keys (fst (extractTargets (slice ! n) path noTargets))\<rparr>,
         Some (Idx n err)))
   \<and> ((\<forall>obj \<in> set objs. map_of obj ''__federation'' \<noteq> None) \<longrightarrow>
      extractTargets (JList (map JObj objs)) [] pf =
        (pf\<lparr>targets := targets pf @ objs,
            keys := keys pf @ map (\<lambda>obj. the (map_of obj ''__federation'')) objs\<rparr>,
         None))"
proof (intro conjI impI)
  assume "\<forall>elem \<in> set slice. snd (extractTargets elem path noTargets) = None"
  then show "extractTargets (JList slice) path pf =
        (pf\<lparr>targets := targets pf
               @ concat (map (\<lambda>elem. targets (fst (extractTargets elem path noTargets))) slice),
            keys := keys pf
               @ concat (map (\<lambda>elem. keys (fst (extractTargets elem path noTargets))) slice)\<rparr>,
         None)"
    by (simp add: extractSlice_all_ok)
next
  assume a: "n < length slice
        \<and> (\<forall>j < n. snd (extractTargets (slice ! j) path noTargets) = None)
        \<and> snd (extractTargets (slice ! n) path noTargets) = Some err"
  show "extractTargets (JList slice) path pf =
        (pf\<lparr>targets := targets pf
               @ concat (map (\<lambda>elem. targets (fst (extractTargets elem path noTargets))) (take n slice))
               @ targets (fst (extractTargets (slice ! n) path noTargets)),
            keys := keys pf
               @ concat (map (\<lambda>elem. keys (fst (extractTargets elem path noTargets))) (take n slice))
               @ keys (fst (extractTargets (slice ! n) path noTargets))\<rparr>,
         Some (Idx n err))"
    using extractSlice_first_error[of n slice path err 0 pf] a by simp
next
  assume "\<forall>obj \<in> set objs. map_of obj ''__federation'' \<noteq> None"
  then show "extractTargets (JList (map JObj objs)) [] pf =
        (pf\<lparr>targets := targets pf @ objs,
            keys := keys pf @ map (\<lambda>obj. the (map_of obj ''__federation'')) objs\<rparr>,
         None)"
    by (simp add: extractSlice_objects)
qed

theorem extractTargets_list_fan_out_witness:
  "extractTargets
     (JList [JObj [(''__federation'', JStr ''k0'')], JObj [(''__federation'', JStr ''k1'')]])
     [] noTargets =
     (\<lparr>targets = [[(''__federation'', JStr ''k0'')], [(''__federation'', JStr ''k1'')]],
       keys = [JStr ''k0'', JStr ''k1'']\<rparr>, None)
   \<and> extractTargets
     (JList [JObj [(''__federation'', JStr ''k0'')], JNull, JObj [(''__federation'', JStr ''k2'')]])
     [] noTargets =
     (\<lparr>targets = [[(''__federation'', JStr ''k0'')]], keys = [JStr ''k0'']\<rparr>,
      Some (Idx 1 NotAnObject))"
  using extractTargets_list_fan_out
          [where slice = "[JObj [(''__federation'', JStr ''k0'')], JObj [(''__federation'', JStr ''k1'')]]"
             and path = "[]" and pf = noTargets and n = 0 and err = NotAnObject
             and objs = "[[(''__federation'', JStr ''k0'')], [(''__federation'', JStr ''k1'')]]"]
        extractTargets_list_fan_out
          [where slice = "[JObj [(''__federation'', JStr ''k0'')], JNull, JObj [(''__federation'', JStr ''k2'')]]"
             and path = "[]" and pf = noTargets and n = 1 and err = NotAnObject and objs = "[]"]
  by (simp add: noTargets_def)

text \<open>
  C6, as stated, fails on a list: with the empty path an empty list is not an object and
  carries no \<^verbatim>\<open>__federation\<close>, and the call returns no error and no target.
\<close>

theorem extractTargets_empty_list_no_error:
  "extractTargets (JList []) [] noTargets = (noTargets, None)"
  by simp

text \<open>
  C6, amended. With the empty path and a current node that is not a list: an object
  that has the field \<^verbatim>\<open>__federation\<close> is appended as a target and the field's value as
  its key, with no error; an object without the field gives the error
  \<^verbatim>\<open>missing __federation\<close>, and a node that is no object the error \<^verbatim>\<open>not an object\<close>,
  the follower unchanged in both cases.
\<close>

theorem extractTargets_path_exhausted:
  "(map_of obj ''__federation'' = Some key \<longrightarrow>
      extractTargets (JObj obj) [] pf =
        (pf\<lparr>targets := targets pf @ [obj], keys := keys pf @ [key]\<rparr>, None))
   \<and> (map_of obj ''__federation'' = None \<longrightarrow>
      extractTargets (JObj obj) [] pf = (pf, Some (MissingFederation obj)))
   \<and> ((\<forall>slice. node \<noteq> JList slice) \<and> (\<forall>fields. node \<noteq> JObj fields) \<longrightarrow>
      extractTargets node [] pf = (pf, Some NotAnObject))"
  by (cases node) simp_all

theorem extractTargets_path_exhausted_witness:
  "extractTargets (JObj [(''id'', JNum 7), (''__federation'', JStr ''k'')]) [] noTargets =
     (\<lparr>targets = [[(''id'', JNum 7), (''__federation'', JStr ''k'')]], keys = [JStr ''k'']\<rparr>, None)
   \<and> extractTargets (JObj [(''id'', JNum 7)]) [] noTargets =
     (noTargets, Some (MissingFederation [(''id'', JNum 7)]))
   \<and> extractTargets (JStr ''x'') [] noTargets = (noTargets, Some NotAnObject)"
  using extractTargets_path_exhausted
          [where obj = "[(''id'', JNum 7), (''__federation'', JStr ''k'')]" and key = "JStr ''k''"
             and pf = noTargets and node = "JStr ''x''"]
        extractTargets_path_exhausted
          [where obj = "[(''id'', JNum 7)]" and key = "JStr ''k''"
             and pf = noTargets and node = "JStr ''x''"]
  by (simp add: noTargets_def)

text \<open>
  C7, as stated, fails on a node that is no object: a field-descent step on \<^verbatim>\<open>nil\<close>
  returns no error and no target (\<^verbatim>\<open>if !ok { return nil }\<close>).
\<close>

theorem extractTargets_field_step_on_null:
  "extractTargets JNull [\<lparr>Kind = KindField, Name = ''buyer''\<rparr>] noTargets = (noTargets, None)"
  by simp

text \<open>
  C7, amended. With a path whose first step is a field descent: an object that lacks
  the named field gives the error \<^verbatim>\<open>does not have key\<close> and leaves the follower
  unchanged; a node that is neither a list nor an object gives no error and no target,
  whatever the step.
\<close>

theorem extractTargets_field_step:
  "(Kind step = KindField \<and> map_of obj (Name step) = None \<longrightarrow>
      extractTargets (JObj obj) (step # rest) pf = (pf, Some (DoesNotHaveKey (Name step))))
   \<and> ((\<forall>slice. node \<noteq> JList slice) \<and> (\<forall>fields. node \<noteq> JObj fields) \<longrightarrow>
      extractTargets node (step # rest) pf = (pf, None))"
  by (cases node) simp_all

theorem extractTargets_field_step_witness:
  "extractTargets (JObj [(''id'', JNum 7)]) [\<lparr>Kind = KindField, Name = ''buyer''\<rparr>] noTargets =
     (noTargets, Some (DoesNotHaveKey ''buyer''))
   \<and> extractTargets (JNum 7) [\<lparr>Kind = KindField, Name = ''buyer''\<rparr>] noTargets = (noTargets, None)"
  using extractTargets_field_step
          [where step = "\<lparr>Kind = KindField, Name = ''buyer''\<rparr>" and obj = "[(''id'', JNum 7)]"
             and rest = "[]" and pf = noTargets and node = "JNum 7"]
  by simp

text \<open>
  C8. With a path whose first step is a type restriction and an object as the current
  node: when \<^verbatim>\<open>__typename\<close> is missing or is not a string the call returns the error
  \<^verbatim>\<open>does not have string key __typename\<close>; when it is a string other than the step's
  name the call returns no error and appends no target and no key.
\<close>

theorem extractTargets_type_step:
  "Kind step = KindType \<longrightarrow>
     ((\<forall>t. map_of obj ''__typename'' \<noteq> Some (JStr t)) \<longrightarrow>
        extractTargets (JObj obj) (step # rest) pf = (pf, Some DoesNotHaveTypename))
     \<and> (map_of obj ''__typename'' = Some (JStr t) \<and> t \<noteq> Name step \<longrightarrow>
        extractTargets (JObj obj) (step # rest) pf = (pf, None))"
  by (auto simp: typename_def split: option.splits json.splits)

theorem extractTargets_type_step_witness:
  "extractTargets (JObj [(''__typename'', JStr ''Cat''), (''__federation'', JStr ''k'')])
     [\<lparr>Kind = KindType, Name = ''Dog''\<rparr>] noTargets = (noTargets, None)
   \<and> extractTargets (JObj [(''__typename'', JNum 3)]) [\<lparr>Kind = KindType, Name = ''Dog''\<rparr>] noTargets =
     (noTargets, Some DoesNotHaveTypename)
   \<and> extractTargets (JObj [(''id'', JNum 7)]) [\<lparr>Kind = KindType, Name = ''Dog''\<rparr>] noTargets =
     (noTargets, Some DoesNotHaveTypename)"
  using extractTargets_type_step
          [where step = "\<lparr>Kind = KindType, Name = ''Dog''\<rparr>" and rest = "[]" and pf = noTargets
             and obj = "[(''__typename'', JStr ''Cat''), (''__federation'', JStr ''k'')]" and t = "''Cat''"]
        extractTargets_type_step
          [where step = "\<lparr>Kind = KindType, Name = ''Dog''\<rparr>" and rest = "[]" and pf = noTargets
             and obj = "[(''__typename'', JNum 3)]" and t = "''Cat''"]
        extractTargets_type_step
          [where step = "\<lparr>Kind = KindType, Name = ''Dog''\<rparr>" and rest = "[]" and pf = noTargets
             and obj = "[(''id'', JNum 7)]" and t = "''Cat''"]
  by (simp add: typename_def)

section \<open>Walking a plan\<close>

text \<open>
  \<^verbatim>\<open>execute\<close> reads neither its keys, nor its executor, nor any \<^verbatim>\<open>Path\<close>.
\<close>

lemma execute_reads_no_keys:
  "execute coordinator e p ks = execute coordinator e p ks'"
  by (cases p) simp

lemma execute_reads_no_executor:
  "execute coordinator e p ks = execute coordinator e' p ks"
proof (induction p arbitrary: ks)
  case (Plan service path after)
  then show ?case by (simp add: Let_def subPlanFollower_def cong: map_cong)
qed

lemma execute_reads_no_path:
  "execute coordinator e (withoutPaths p) ks = execute coordinator e p ks"
proof (induction p arbitrary: ks)
  case (Plan service path after)
  then show ?case by (simp add: Let_def comp_def subPlanFollower_def cong: map_cong)
qed

text \<open>
  C1. What the code does where the claim asks for a walk of the child's \<^verbatim>\<open>Path\<close>: the
  follower of every child holds the parent's result root as its only target and no
  keys, and replacing every path of a plan by the empty path changes nothing. At the
  coordinator plan with one coordinator child of path \<^verbatim>\<open>[orders]\<close> \<^verbatim>\<open>execute\<close> returns the
  merged root with no error, where the walk of that path over the parent's result
  fails (\<^verbatim>\<open>idx 0: does not have key orders\<close>).
\<close>

theorem execute_targets_are_result_root:
  "subPlanFollower [JObj root] = Returned \<lparr>targets = [root], keys = []\<rparr>
   \<and> execute coordinator e (withoutPaths p) ks = execute coordinator e p ks
   \<and> execute coordinator e
        (Plan coordinator [] [Plan coordinator [\<lparr>Kind = KindField, Name = ''orders''\<rparr>] []]) [] =
        Returned [JObj []]
   \<and> extractTargets (JList [JObj []]) [\<lparr>Kind = KindField, Name = ''orders''\<rparr>] noTargets =
        (noTargets, Some (Idx 0 (DoesNotHaveKey ''orders'')))"
  by (simp add: execute_reads_no_path subPlanFollower_def subPlanTask_def mergeObject_def)

text \<open>
  C2. A plan with no child returns one empty object when its service is the
  coordinator and the nil slice otherwise; and the outcome of \<^verbatim>\<open>execute\<close> on any plan
  is the same for every executor and every list of keys: no client is called and no
  key is bound.
\<close>

theorem execute_calls_no_service:
  "execute coordinator e (Plan service path []) ks =
     Returned (if service = coordinator then [JObj []] else [])
   \<and> execute coordinator e p ks = execute coordinator e' p ks'"
  using execute_reads_no_executor[of coordinator e p ks e']
        execute_reads_no_keys[of coordinator e' p ks ks'] by simp

text \<open>
  C3. A single-node plan on a service other than the coordinator, run on an executor
  whose client for that service answers \<open>response\<close>: \<^verbatim>\<open>execute\<close> returns the nil slice,
  not the client's response, and \<^verbatim>\<open>Execute\<close> panics on \<^verbatim>\<open>r[0]\<close>.
\<close>

theorem execute_single_backend_plan:
  "service \<noteq> coordinator \<longrightarrow>
     execute coordinator
       \<lparr>Executors = [(service, Client (\<lambda>req. Inr response))], planner = pl\<rparr>
       (Plan service [] []) [] = Returned []
     \<and> Execute (\<lambda>pl q. Inr (Plan service [] [])) coordinator
       \<lparr>Executors = [(service, Client (\<lambda>req. Inr response))], planner = pl\<rparr> q = Panic"
  by (simp add: Execute_def)

theorem execute_single_backend_plan_witness:
  "execute ''gateway-coordinator''
     \<lparr>Executors = [(''users'', Client (\<lambda>req. Inr ''users-response''))],
      planner = \<lparr>schema = (), flattener = ()\<rparr>\<rparr>
     (Plan ''users'' [] []) [] = Returned []
   \<and> Execute (\<lambda>pl q. Inr (Plan ''users'' [] [])) ''gateway-coordinator''
     \<lparr>Executors = [(''users'', Client (\<lambda>req. Inr ''users-response''))],
      planner = \<lparr>schema = (), flattener = ()\<rparr>\<rparr> () = Panic"
  using execute_single_backend_plan
          [where service = "''users''" and coordinator = "''gateway-coordinator''"
             and response = "''users-response''" and q = "()"
             and pl = "\<lparr>schema = (), flattener = ()\<rparr>"]
  by simp

text \<open>
  C4. For a plan whose service is not the coordinator: with children \<^verbatim>\<open>execute\<close> panics
  on \<^verbatim>\<open>res[0]\<close>, without children it returns the nil slice, and \<^verbatim>\<open>Execute\<close> panics
  whenever the planner returns such a plan.
\<close>

theorem execute_backend_plan_panics:
  "service \<noteq> coordinator \<longrightarrow>
     (after \<noteq> [] \<longrightarrow> execute coordinator e (Plan service path after) ks = Panic)
     \<and> (after = [] \<longrightarrow> execute coordinator e (Plan service path after) ks = Returned [])
     \<and> (planRoot (planner e) q = Inr (Plan service path after) \<longrightarrow>
          Execute planRoot coordinator e q = Panic)"
  by (auto simp: Execute_def subPlanFollower_def)

theorem execute_backend_plan_panics_witness:
  "execute ''gateway-coordinator'' \<lparr>Executors = [], planner = \<lparr>schema = (), flattener = ()\<rparr>\<rparr>
     (Plan ''orders'' [] [Plan ''users'' [\<lparr>Kind = KindField, Name = ''orders''\<rparr>] []]) [] = Panic
   \<and> Execute (\<lambda>pl q. Inr (Plan ''orders'' [] [Plan ''users'' [\<lparr>Kind = KindField, Name = ''orders''\<rparr>] []]))
       ''gateway-coordinator'' \<lparr>Executors = [], planner = \<lparr>schema = (), flattener = ()\<rparr>\<rparr> () = Panic
   \<and> execute ''gateway-coordinator'' \<lparr>Executors = [], planner = \<lparr>schema = (), flattener = ()\<rparr>\<rparr>
     (Plan ''orders'' [] []) [] = Returned []
   \<and> Execute (\<lambda>pl q. Inr (Plan ''orders'' [] []))
       ''gateway-coordinator'' \<lparr>Executors = [], planner = \<lparr>schema = (), flattener = ()\<rparr>\<rparr> () = Panic"
  using execute_backend_plan_panics
          [where service = "''orders''" and coordinator = "''gateway-coordinator''"
             and after = "[Plan ''users'' [\<lparr>Kind = KindField, Name = ''orders''\<rparr>] []]"
             and path = "[]" and ks = "[]" and q = "()"
             and e = "\<lparr>Executors = [], planner = \<lparr>schema = (), flattener = ()\<rparr>\<rparr>"
             and planRoot = "\<lambda>pl q. Inr (Plan ''orders'' [] [Plan ''users'' [\<lparr>Kind = KindField, Name = ''orders''\<rparr>] []])"]
        execute_backend_plan_panics
          [where service = "''orders''" and coordinator = "''gateway-coordinator''"
             and after = "[]" and path = "[]" and ks = "[]" and q = "()"
             and e = "\<lparr>Executors = [], planner = \<lparr>schema = (), flattener = ()\<rparr>\<rparr>"
             and planRoot = "\<lambda>pl q. Inr (Plan ''orders'' [] [])"]
  by (simp add: subPlanFollower_def Execute_def)

section \<open>Building the gateway\<close>

text \<open>The loop over the services fails exactly when some service's step fails.\<close>

lemma fetchSchemas_fails:
  "(server, client) \<in> set executors \<Longrightarrow>
   fetchSchema c client = Inl e \<or> (\<exists>raw. fetchSchema c client = Inr raw \<and> unmarshal c raw = Inl e) \<Longrightarrow>
   \<exists>err. fetchSchemas c executors schemas = Inl err"
proof (induction executors arbitrary: schemas)
  case Nil
  then show ?case by simp
next
  case (Cons entry rest)
  obtain s cl where entry: "entry = (s, cl)" by (cases entry)
  show ?case
  proof (cases "fetchSchema c cl")
    case (Inl a)
    then show ?thesis using entry by simp
  next
    case (Inr raw)
    show ?thesis
    proof (cases "unmarshal c raw")
      case (Inl a)
      then show ?thesis using entry Inr by simp
    next
      case inr: (Inr iq)
      have "(server, client) \<in> set rest"
        using Cons.prems entry Inr inr by auto
      from Cons.IH[OF this Cons.prems(2)] show ?thesis
        using entry Inr inr by simp
    qed
  qed
qed

lemma fetchSchemas_error:
  "fetchSchemas c executors schemas = Inl err \<Longrightarrow>
   \<exists>server client e. (server, client) \<in> set executors \<and>
     ((fetchSchema c client = Inl e \<and> err = FetchingSchema server e) \<or>
      (\<exists>raw. fetchSchema c client = Inr raw \<and> unmarshal c raw = Inl e
             \<and> err = UnmarshalingSchema server e))"
proof (induction executors arbitrary: schemas)
  case Nil
  then show ?case by simp
next
  case (Cons entry rest)
  obtain s cl where entry: "entry = (s, cl)" by (cases entry)
  show ?case
  proof (cases "fetchSchema c cl")
    case (Inl a)
    then have "err = FetchingSchema s a" using Cons.prems entry by simp
    then show ?thesis using Inl entry by auto
  next
    case (Inr raw)
    show ?thesis
    proof (cases "unmarshal c raw")
      case (Inl a)
      then have "err = UnmarshalingSchema s a" using Cons.prems entry Inr by simp
      then show ?thesis using Inl Inr entry by auto
    next
      case inr: (Inr iq)
      have "fetchSchemas c rest (schemas(s \<mapsto> iq)) = Inl err"
        using Cons.prems entry Inr inr by simp
      from Cons.IH[OF this] show ?thesis by auto
    qed
  qed
qed

lemma NewExecutor_loop_error:
  "fetchSchemas c executors Map.empty = Inl err \<Longrightarrow> NewExecutor c executors = (executors, Inl err)"
  by (simp add: NewExecutor_def)

text \<open>
  C9, as stated, fails where the flattener fails: the executor is nil, but the error is
  the flattener's own, returned as it is, with no step named by \<^verbatim>\<open>NewExecutor\<close>.
\<close>

theorem NewExecutor_flattener_error_unwrapped:
  "NewExecutor (goodCollaborators\<lparr>newFlattener := \<lambda>s. Inl (Opaque ''no key field'')\<rparr>)
     [(''users'', usersClient)] =
     ([(''users'', usersClient),
       (''introspection'', DirectExecutorClient (Server ''bare:merged''))],
      Inl (Opaque ''no key field''))
   \<and> \<not> namesFailingStep (Opaque ''no key field'')"
  by (simp add: NewExecutor_def goodCollaborators_def usersClient_def fetchSchema_def
        clientExecute_def Let_def)

text \<open>
  C9, amended. \<^verbatim>\<open>NewExecutor\<close> returns no executor and an error whenever a step fails.
  If fetching or decoding the schema of some service of the map fails, the error is
  \<^verbatim>\<open>fetching schema\<close> or \<^verbatim>\<open>unmarshaling schema\<close> of a service of the map for which that
  step fails, and the map is untouched. If all schemas are fetched and the first merge
  fails, the error is \<^verbatim>\<open>converting schema error\<close> around the merger's error; if the
  introspection result cannot be decoded, \<^verbatim>\<open>unmarshaling introspection schema\<close> around
  the decoder's error. If the second merge or the flattener fails, the error returned
  is that collaborator's error, unchanged.
\<close>

theorem NewExecutor_fails_fast:
  "((server, client) \<in> set executors
      \<and> (fetchSchema c client = Inl e
          \<or> (\<exists>raw. fetchSchema c client = Inr raw \<and> unmarshal c raw = Inl e)) \<longrightarrow>
      (\<exists>server' client' e'. (server', client') \<in> set executors \<and>
         ((fetchSchema c client' = Inl e'
             \<and> NewExecutor c executors = (executors, Inl (FetchingSchema server' e')))
          \<or> (\<exists>raw. fetchSchema c client' = Inr raw \<and> unmarshal c raw = Inl e'
             \<and> NewExecutor c executors = (executors, Inl (UnmarshalingSchema server' e'))))))
   \<and> (fetchSchemas c executors Map.empty = Inr schemas \<longrightarrow>
        (convertSchema c schemas = Inl err \<longrightarrow>
           NewExecutor c executors = (executors, Inl (ConvertingSchema err)))
        \<and> (convertSchema c schemas = Inr types \<longrightarrow>
             (unmarshal c (fst (RunIntrospectionQuery c
                 (BareIntrospectionSchema c (BareIntrospectionSchema c (Schema c types))))) = Inl err \<longrightarrow>
                snd (NewExecutor c executors) = Inl (UnmarshalingIntrospectionSchema err))
             \<and> (unmarshal c (fst (RunIntrospectionQuery c
                 (BareIntrospectionSchema c (BareIntrospectionSchema c (Schema c types))))) = Inr iq \<longrightarrow>
                  (convertSchema c (schemas(''introspection'' \<mapsto> iq)) = Inl err \<longrightarrow>
                     snd (NewExecutor c executors) = Inl err)
                  \<and> (convertSchema c (schemas(''introspection'' \<mapsto> iq)) = Inr types'
                       \<and> newFlattener c (Schema c types') = Inl err \<longrightarrow>
                     snd (NewExecutor c executors) = Inl err))))"
proof (intro conjI impI)
  assume a: "(server, client) \<in> set executors
      \<and> (fetchSchema c client = Inl e
          \<or> (\<exists>raw. fetchSchema c client = Inr raw \<and> unmarshal c raw = Inl e))"
  then obtain err' where err': "fetchSchemas c executors Map.empty = Inl err'"
    using fetchSchemas_fails[of server client executors c e Map.empty] by blast
  from fetchSchemas_error[OF err'] NewExecutor_loop_error[OF err']
  show "\<exists>server' client' e'. (server', client') \<in> set executors \<and>
         ((fetchSchema c client' = Inl e'
             \<and> NewExecutor c executors = (executors, Inl (FetchingSchema server' e')))
          \<or> (\<exists>raw. fetchSchema c client' = Inr raw \<and> unmarshal c raw = Inl e'
             \<and> NewExecutor c executors = (executors, Inl (UnmarshalingSchema server' e'))))"
    by metis
qed (simp_all add: NewExecutor_def Let_def)

theorem NewExecutor_fails_fast_witness:
  "NewExecutor goodCollaborators
     [(''users'', usersClient), (''orders'', Client (\<lambda>q. Inl (Opaque ''connection refused'')))] =
     ([(''users'', usersClient), (''orders'', Client (\<lambda>q. Inl (Opaque ''connection refused'')))],
      Inl (FetchingSchema ''orders'' (Opaque ''connection refused'')))
   \<and> NewExecutor goodCollaborators [(''users'', Client (\<lambda>q. Inr []))] =
     ([(''users'', Client (\<lambda>q. Inr []))],
      Inl (UnmarshalingSchema ''users'' (Opaque ''unexpected end of JSON input'')))
   \<and> NewExecutor (goodCollaborators\<lparr>convertSchema := \<lambda>schemas. Inl (Opaque ''conflict'')\<rparr>)
       [(''users'', usersClient)] =
     ([(''users'', usersClient)], Inl (ConvertingSchema (Opaque ''conflict'')))
   \<and> snd (NewExecutor
        (goodCollaborators\<lparr>RunIntrospectionQuery := \<lambda>s. ([], Some (Opaque ''introspection failed''))\<rparr>)
        [(''users'', usersClient)]) =
     Inl (UnmarshalingIntrospectionSchema (Opaque ''unexpected end of JSON input''))
   \<and> snd (NewExecutor
        (goodCollaborators\<lparr>convertSchema := \<lambda>schemas.
           if schemas ''introspection'' = None then Inr ''merged'' else Inl (Opaque ''conflict'')\<rparr>)
        [(''users'', usersClient)]) =
     Inl (Opaque ''conflict'')
   \<and> snd (NewExecutor (goodCollaborators\<lparr>newFlattener := \<lambda>s. Inl (Opaque ''no key field'')\<rparr>)
        [(''users'', usersClient)]) =
     Inl (Opaque ''no key field'')"
proof -
  have fetch: "NewExecutor goodCollaborators
     [(''users'', usersClient), (''orders'', Client (\<lambda>q. Inl (Opaque ''connection refused'')))] =
     ([(''users'', usersClient), (''orders'', Client (\<lambda>q. Inl (Opaque ''connection refused'')))],
      Inl (FetchingSchema ''orders'' (Opaque ''connection refused'')))"
    using NewExecutor_fails_fast
            [where c = goodCollaborators and server = "''orders''"
               and client = "Client (\<lambda>q. Inl (Opaque ''connection refused''))"
               and e = "Opaque ''connection refused''"
               and executors = "[(''users'', usersClient),
                                 (''orders'', Client (\<lambda>q. Inl (Opaque ''connection refused'')))]"]
    by (auto simp: goodCollaborators_def usersClient_def fetchSchema_def clientExecute_def)
  have decode: "NewExecutor goodCollaborators [(''users'', Client (\<lambda>q. Inr []))] =
     ([(''users'', Client (\<lambda>q. Inr []))],
      Inl (UnmarshalingSchema ''users'' (Opaque ''unexpected end of JSON input'')))"
    using NewExecutor_fails_fast
            [where c = goodCollaborators and server = "''users''"
               and client = "Client (\<lambda>q. Inr [])"
               and e = "Opaque ''unexpected end of JSON input''"
               and executors = "[(''users'', Client (\<lambda>q. Inr []))]"]
    by (auto simp: goodCollaborators_def fetchSchema_def clientExecute_def)
  have convert: "NewExecutor (goodCollaborators\<lparr>convertSchema := \<lambda>schemas. Inl (Opaque ''conflict'')\<rparr>)
       [(''users'', usersClient)] =
     ([(''users'', usersClient)], Inl (ConvertingSchema (Opaque ''conflict'')))"
    using NewExecutor_fails_fast
            [where c = "goodCollaborators\<lparr>convertSchema := \<lambda>schemas. Inl (Opaque ''conflict'')\<rparr>"
               and executors = "[(''users'', usersClient)]"
               and schemas = "[''users'' \<mapsto> ''users-schema'']" and err = "Opaque ''conflict''"]
    by (simp add: goodCollaborators_def usersClient_def fetchSchema_def clientExecute_def)
  have introspect: "snd (NewExecutor
        (goodCollaborators\<lparr>RunIntrospectionQuery := \<lambda>s. ([], Some (Opaque ''introspection failed''))\<rparr>)
        [(''users'', usersClient)]) =
     Inl (UnmarshalingIntrospectionSchema (Opaque ''unexpected end of JSON input''))"
    using NewExecutor_fails_fast
            [where c = "goodCollaborators\<lparr>RunIntrospectionQuery :=
                          \<lambda>s. ([], Some (Opaque ''introspection failed''))\<rparr>"
               and executors = "[(''users'', usersClient)]"
               and schemas = "[''users'' \<mapsto> ''users-schema'']" and types = "''merged''"
               and err = "Opaque ''unexpected end of JSON input''"]
    by (simp add: goodCollaborators_def usersClient_def fetchSchema_def clientExecute_def)
  have merge: "snd (NewExecutor
        (goodCollaborators\<lparr>convertSchema := \<lambda>schemas.
           if schemas ''introspection'' = None then Inr ''merged'' else Inl (Opaque ''conflict'')\<rparr>)
        [(''users'', usersClient)]) =
     Inl (Opaque ''conflict'')"
    using NewExecutor_fails_fast
            [where c = "goodCollaborators\<lparr>convertSchema := \<lambda>schemas.
                 if schemas ''introspection'' = None then Inr ''merged'' else Inl (Opaque ''conflict'')\<rparr>"
               and executors = "[(''users'', usersClient)]"
               and schemas = "[''users'' \<mapsto> ''users-schema'']" and types = "''merged''"
               and iq = "''introspected:bare:bare:merged''" and err = "Opaque ''conflict''"]
    by (simp add: goodCollaborators_def usersClient_def fetchSchema_def clientExecute_def)
  have flatten: "snd (NewExecutor (goodCollaborators\<lparr>newFlattener := \<lambda>s. Inl (Opaque ''no key field'')\<rparr>)
        [(''users'', usersClient)]) =
     Inl (Opaque ''no key field'')"
    using NewExecutor_fails_fast
            [where c = "goodCollaborators\<lparr>newFlattener := \<lambda>s. Inl (Opaque ''no key field'')\<rparr>"
               and executors = "[(''users'', usersClient)]"
               and schemas = "[''users'' \<mapsto> ''users-schema'']" and types = "''merged''"
               and iq = "''introspected:bare:bare:merged''" and types' = "''merged''"
               and err = "Opaque ''no key field''"]
    by (simp add: goodCollaborators_def usersClient_def fetchSchema_def clientExecute_def)
  from fetch decode convert introspect merge flatten show ?thesis by blast
qed

text \<open>
  C10. When \<^verbatim>\<open>NewExecutor\<close> succeeds, the caller's map afterwards is the map before with
  the key \<^verbatim>\<open>introspection\<close> set to the \<^verbatim>\<open>DirectExecutorClient\<close> of the server built from
  the merged schema; every other key maps to what it mapped to before, and the
  executor returned holds that same map.
\<close>

theorem NewExecutor_registers_introspection:
  "snd (NewExecutor c executors) = Inr ex \<longrightarrow>
     (\<exists>schemas types.
        fetchSchemas c executors Map.empty = Inr schemas \<and> convertSchema c schemas = Inr types
        \<and> map_of (fst (NewExecutor c executors)) =
            (map_of executors)(''introspection'' \<mapsto>
               DirectExecutorClient (Server (BareIntrospectionSchema c (Schema c types)))))
     \<and> (\<forall>server. server \<noteq> ''introspection'' \<longrightarrow>
           map_of (fst (NewExecutor c executors)) server = map_of executors server)
     \<and> Executors ex = fst (NewExecutor c executors)"
  by (auto simp: NewExecutor_def Let_def update_conv' split: sum.splits)


theorem NewExecutor_registers_introspection_witness:
  "map_of (fst (NewExecutor goodCollaborators [(''users'', usersClient)])) ''introspection'' =
     Some (DirectExecutorClient (Server ''bare:merged''))
   \<and> map_of (fst (NewExecutor goodCollaborators [(''users'', usersClient)])) ''users'' =
     Some usersClient
   \<and> snd (NewExecutor goodCollaborators [(''users'', usersClient)]) =
     Inr \<lparr>Executors = [(''users'', usersClient),
                        (''introspection'', DirectExecutorClient (Server ''bare:merged''))],
          planner = \<lparr>schema = ''merged'', flattener = ()\<rparr>\<rparr>"
proof -
  have run: "snd (NewExecutor goodCollaborators [(''users'', usersClient)]) =
     Inr \<lparr>Executors = [(''users'', usersClient),
                        (''introspection'', DirectExecutorClient (Server ''bare:merged''))],
          planner = \<lparr>schema = ''merged'', flattener = ()\<rparr>\<rparr>"
    by (simp add: NewExecutor_def goodCollaborators_def usersClient_def fetchSchema_def
          clientExecute_def Let_def)
  have conv: "convertSchema goodCollaborators schemas = Inr ''merged''" for schemas
    by (simp add: goodCollaborators_def)
  have bare: "BareIntrospectionSchema goodCollaborators (Schema goodCollaborators ''merged'') = ''bare:merged''"
    by (simp add: goodCollaborators_def)
  from NewExecutor_registers_introspection
         [where c = goodCollaborators and executors = "[(''users'', usersClient)]"
            and ex = "\<lparr>Executors = [(''users'', usersClient),
                        (''introspection'', DirectExecutorClient (Server ''bare:merged''))],
                       planner = \<lparr>schema = ''merged'', flattener = ()\<rparr>\<rparr>"] run
  obtain schemas types where
    m: "convertSchema goodCollaborators schemas = Inr types"
       "map_of (fst (NewExecutor goodCollaborators [(''users'', usersClient)])) =
          (map_of [(''users'', usersClient)])(''introspection'' \<mapsto>
             DirectExecutorClient (Server (BareIntrospectionSchema goodCollaborators
               (Schema goodCollaborators types))))"
    by blast
  from m(1) conv have "types = ''merged''" by simp
  with m(2) bare show ?thesis using run by simp
qed

end
